theory Spec2Isabelle
  imports Main "HOL-Library.AList"
begin

section \<open>Documents of the request store and the user directory\<close>

text \<open>
  The handlers of \<^verbatim>\<open>server/routes/requests.js\<close> work on two collections: the requests
  and the users. A collection is the list of its documents; \<^verbatim>\<open>findById\<close> returns the
  document with the given \<^verbatim>\<open>_id\<close>, or nothing (\<^verbatim>\<open>null\<close>).

  Identifiers are strings (the handlers compare them through \<^verbatim>\<open>toString()\<close>), times are
  natural numbers, and the free-form payload of a request (name, location, bloodType, ...)
  is kept as an object of JSON values, because \<^verbatim>\<open>PUT /:id\<close> addresses it by field name.
\<close>

datatype json =
    JNull
  | JBool bool
  | JNum int
  | JStr string
  | JArr "json list"
  | JObj "(string \<times> json) list"

type_synonym user_id = string
type_synonym request_id = string
type_synonym time = nat
type_synonym object = "(string \<times> json) list"

text \<open>The three request types admitted by the validators of \<^verbatim>\<open>POST /\<close>
  (\<^verbatim>\<open>isIn(['blood', 'elder_support', 'complaint'])\<close>).\<close>

datatype request_type = Blood | ElderSupport | Complaint

fun type_name :: "request_type \<Rightarrow> string" where
  "type_name Blood = ''blood''"
| "type_name ElderSupport = ''elder_support''"
| "type_name Complaint = ''complaint''"

record user =
  u_id :: user_id
  u_name :: string
  u_phone :: "string option"
  u_email :: string
  u_role :: string

text \<open>
  An acceptance record refers to a user. In a stored document the reference \<open>'u\<close> is the
  user's id; after \<^verbatim>\<open>populate('accepters.user', 'name phone email')\<close> it is the selected
  part of the user document, or \<^verbatim>\<open>null\<close> when the user is gone.
\<close>

record 'u accepter_doc =
  a_user :: 'u
  a_acceptedAt :: time
  a_status :: string

record 'u request_doc =
  r_id :: request_id
  r_type :: request_type
  r_user :: user_id
  r_phone :: string
  r_status :: string
  r_accepters :: "'u accepter_doc list"
  r_createdAt :: time
  r_updatedAt :: time
  r_fields :: object

record populated_user =
  p_id :: user_id
  p_name :: string
  p_phone :: "string option"
  p_email :: string

type_synonym accepter = "user_id accepter_doc"
type_synonym request = "user_id request_doc"
type_synonym populated_request = "populated_user option request_doc"

text \<open>The failures of the handlers: the HTTP status and message of each early return.
  \<open>ServerError\<close> is the \<^verbatim>\<open>catch\<close> branch (status 500), reached when the handler
  dereferences a reference that \<^verbatim>\<open>populate\<close> or \<^verbatim>\<open>findById\<close> left \<^verbatim>\<open>null\<close>, or when the
  store refuses a write.\<close>

datatype error =
    NotFound            \<comment> \<open>404 Request not found\<close>
  | VolunteerNotFound   \<comment> \<open>404 Volunteer not found\<close>
  | Forbidden           \<comment> \<open>403 Access denied / Not authorized\<close>
  | WrongType           \<comment> \<open>400 only for blood requests\<close>
  | SelfAcceptance      \<comment> \<open>400 Cannot volunteer for your own request\<close>
  | AlreadyAccepted     \<comment> \<open>400 already been accepted by another donor\<close>
  | AlreadyVolunteered  \<comment> \<open>400 You have already volunteered for this request\<close>
  | NotPending          \<comment> \<open>400 Cannot update request that is no longer pending\<close>
  | NotAccepted         \<comment> \<open>400 Contact details only available for accepted requests\<close>
  | PhoneRequired       \<comment> \<open>400 PHONE_REQUIRED\<close>
  | ValidationFailed    \<comment> \<open>400 Validation failed\<close>
  | ServerError         \<comment> \<open>500\<close>

definition findById :: "request list \<Rightarrow> request_id \<Rightarrow> request option" where
  "findById st rid = find (\<lambda>r. r_id r = rid) st"

definition findUser :: "user list \<Rightarrow> user_id \<Rightarrow> user option" where
  "findUser us uid = find (\<lambda>u. u_id u = uid) us"

text \<open>
  \<^verbatim>\<open>request.save()\<close> on a loaded document does not write the handler's copy back: it
  sends the store the changes the handler made to its copy, and the store applies them
  to the document it holds under that \<^verbatim>\<open>_id\<close> at that moment. \<open>updateOne st rid g\<close> is
  the store applying the change \<open>g\<close>; each writing handler has its own change
  (\<open>save_push\<close>, \<open>save_set\<close> below). \<^verbatim>\<open>findByIdAndDelete\<close> removes the document.

  The handlers read \<^verbatim>\<open>createdAt\<close> and \<^verbatim>\<open>updatedAt\<close> and never write them; how the
  persistence layer keeps \<^verbatim>\<open>updatedAt\<close> is a matter of the schema, which is not among the
  sources, and no write here touches it.
\<close>

definition updateOne :: "request list \<Rightarrow> request_id \<Rightarrow> (request \<Rightarrow> request) \<Rightarrow> request list" where
  "updateOne st rid g = map (\<lambda>x. if r_id x = rid then g x else x) st"

definition findByIdAndDelete :: "request list \<Rightarrow> request_id \<Rightarrow> request list" where
  "findByIdAndDelete st rid = filter (\<lambda>r. r_id r \<noteq> rid) st"

text \<open>JavaScript truthiness, for \<^verbatim>\<open>a || b\<close> and \<^verbatim>\<open>!a\<close>.\<close>

fun truthy :: "json \<Rightarrow> bool" where
  "truthy JNull = False"
| "truthy (JBool b) = b"
| "truthy (JNum n) = (n \<noteq> 0)"
| "truthy (JStr s) = (s \<noteq> [])"
| "truthy (JArr _) = True"
| "truthy (JObj _) = True"

definition truthy_str :: "string option \<Rightarrow> bool" where
  "truthy_str p = (case p of None \<Rightarrow> False | Some s \<Rightarrow> s \<noteq> [])"

text \<open>The populated subset \<^verbatim>\<open>'name phone email'\<close> of a user, as the responses carry it.\<close>

record contact =
  c_name :: string
  c_phone :: "string option"
  c_email :: string

definition contact_of :: "user \<Rightarrow> contact" where
  "contact_of u = \<lparr>c_name = u_name u, c_phone = u_phone u, c_email = u_email u\<rparr>"

record donor =
  d_name :: string
  d_phone :: "string option"
  d_email :: string
  d_acceptedAt :: time

section \<open>POST /:id/volunteer\<close>

text \<open>The body of the response of \<^verbatim>\<open>POST /:id/volunteer\<close> and of \<^verbatim>\<open>GET /:id/contacts\<close>.\<close>

record match_response =
  m_id :: request_id
  m_bloodType :: "json option"
  m_urgencyLevel :: "json option"
  m_location :: "json option"
  m_status :: string
  m_createdAt :: time
  m_acceptedAt :: "time option"
  m_userRole :: string
  m_requester :: contact
  m_donor :: "donor option"

text \<open>
  Lines 624--683 of the handler, on the document that \<^verbatim>\<open>findById(...).populate('user')\<close>
  returned: the checks in the order of the source, then the push and the status change on
  the loaded document. \<open>now\<close> is the \<^verbatim>\<open>new Date()\<close> of the pushed record. A missing owner
  document leaves \<^verbatim>\<open>request.user\<close> null, and \<^verbatim>\<open>request.user._id\<close> throws.
\<close>

definition volunteer_check ::
  "user list \<Rightarrow> user_id \<Rightarrow> request option \<Rightarrow> time \<Rightarrow> error + (request \<times> user \<times> user)" where
  "volunteer_check us userId found now =
    (case found of
       None \<Rightarrow> Inl NotFound
     | Some request \<Rightarrow>
        if r_type request \<noteq> Blood then Inl WrongType
        else (case findUser us (r_user request) of
            None \<Rightarrow> Inl ServerError
          | Some owner \<Rightarrow>
             if u_id owner = userId then Inl SelfAcceptance
             else (case findUser us userId of
                 None \<Rightarrow> Inl VolunteerNotFound
               | Some volunteer \<Rightarrow>
                  if length (r_accepters request) > 0 then Inl AlreadyAccepted
                  else if list_ex (\<lambda>accepter. a_user accepter = userId) (r_accepters request)
                  then Inl AlreadyVolunteered
                  else Inr (request\<lparr>
                         r_accepters := r_accepters request @
                           [\<lparr>a_user = userId, a_acceptedAt = now, a_status = ''accepted''\<rparr>],
                         r_status := ''accepted''\<rparr>, owner, volunteer))))"

text \<open>Lines 691--715: the response, built from the saved document, the populated owner
  and the volunteer's user document; \<open>t2\<close> and \<open>t3\<close> are its two further \<^verbatim>\<open>new Date()\<close>.
  No handler writes the user directory, so the second \<^verbatim>\<open>populate('user')\<close> reads the
  owner document that the first one read.\<close>

definition volunteer_reply :: "request \<Rightarrow> user \<Rightarrow> user \<Rightarrow> time \<Rightarrow> time \<Rightarrow> match_response" where
  "volunteer_reply request owner volunteer t2 t3 =
    \<lparr>m_id = r_id request,
     m_bloodType = map_of (r_fields request) ''bloodType'',
     m_urgencyLevel = map_of (r_fields request) ''urgencyLevel'',
     m_location = map_of (r_fields request) ''location'',
     m_status = r_status request,
     m_createdAt = r_createdAt request,
     m_acceptedAt = Some t2,
     m_userRole = ''donor'',
     m_requester = contact_of owner,
     m_donor = Some \<lparr>d_name = u_name volunteer, d_phone = u_phone volunteer,
                     d_email = u_email volunteer, d_acceptedAt = t3\<rparr>\<rparr>"

text \<open>
  The \<^verbatim>\<open>save\<close> of line 685. The handler changed its copy in two ways: it pushed one
  record, the last of the copy's accepters (line 676), and it set the status (line 683).
  The store appends that record to the accepters it holds and sets the status.
\<close>

definition pushed :: "request \<Rightarrow> accepter list" where
  "pushed r = drop (length (r_accepters r) - 1) (r_accepters r)"

definition save_push :: "request list \<Rightarrow> request \<Rightarrow> request list" where
  "save_push st r =
    updateOne st (r_id r)
      (\<lambda>x. x\<lparr>r_accepters := r_accepters x @ pushed r, r_status := r_status r\<rparr>)"

text \<open>The handler from a loaded document on, over a store whose write may fail
  (\<open>None\<close>: \<^verbatim>\<open>save\<close> throws, and the \<^verbatim>\<open>catch\<close> answers 500).\<close>

definition volunteer_finish ::
  "(request list \<Rightarrow> request \<Rightarrow> request list option) \<Rightarrow> request list \<Rightarrow> user list \<Rightarrow> user_id \<Rightarrow>
   request option \<Rightarrow> time \<Rightarrow> time \<Rightarrow> time \<Rightarrow> (error + match_response) \<times> request list" where
  "volunteer_finish write st us userId found t1 t2 t3 =
    (case volunteer_check us userId found t1 of
       Inl e \<Rightarrow> (Inl e, st)
     | Inr (request, owner, volunteer) \<Rightarrow>
        (case write st request of
           None \<Rightarrow> (Inl ServerError, st)
         | Some st' \<Rightarrow> (Inr (volunteer_reply request owner volunteer t2 t3), st')))"

text \<open>One invocation that no other write interrupts: load, check, save, respond.\<close>

definition volunteer ::
  "request list \<Rightarrow> user list \<Rightarrow> user_id \<Rightarrow> request_id \<Rightarrow> time \<Rightarrow> time \<Rightarrow> time \<Rightarrow>
   error + (request list \<times> match_response)" where
  "volunteer st us userId rid t1 t2 t3 =
    (case volunteer_finish (\<lambda>s r. Some (save_push s r)) st us userId (findById st rid) t1 t2 t3 of
       (Inl e, _) \<Rightarrow> Inl e
     | (Inr resp, st') \<Rightarrow> Inr (st', resp))"

text \<open>
  Two invocations on the same request whose handlers are both suspended at their first
  \<^verbatim>\<open>await\<close> (the \<^verbatim>\<open>findById\<close>) before either reaches its \<^verbatim>\<open>save\<close>: both work on the
  document as it was loaded, A writes first, then B. \<open>write\<close> is what the store does
  with a save; for the store of the handlers it is \<open>save_push\<close>.
\<close>

definition volunteer_race ::
  "(request list \<Rightarrow> request \<Rightarrow> request list option) \<Rightarrow> request list \<Rightarrow> user list \<Rightarrow> request_id \<Rightarrow>
   user_id \<Rightarrow> user_id \<Rightarrow> time \<Rightarrow> time \<Rightarrow>
   (error + match_response) \<times> (error + match_response) \<times> request list" where
  "volunteer_race write st us rid userA userB tA tB =
    (let loadedA = findById st rid;
         loadedB = findById st rid;
         (resA, st1) = volunteer_finish write st us userA loadedA tA tA tA;
         (resB, st2) = volunteer_finish write st1 us userB loadedB tB tB tB
     in (resA, resB, st2))"

section \<open>POST / (create)\<close>

text \<open>
  The request body after the validators ran: \<open>b_type\<close> is \<^verbatim>\<open>req.body.type\<close>,
  \<open>b_phone\<close> is \<^verbatim>\<open>req.body.phone\<close> (optional), \<open>b_rest\<close> holds the other keys.
\<close>

record create_body =
  b_type :: request_type
  b_phone :: "string option"
  b_rest :: object

text \<open>Assigning \<^verbatim>\<open>requestData.k = v\<close>: an undefined value leaves no field behind.\<close>

definition put :: "string \<Rightarrow> json option \<Rightarrow> object \<Rightarrow> object" where
  "put k v obj = (case v of None \<Rightarrow> obj | Some x \<Rightarrow> AList.update k x obj)"

text \<open>\<^verbatim>\<open>new Date(x)\<close>, kept as a tagged value.\<close>

definition new_Date :: "json option \<Rightarrow> json" where
  "new_Date v = JObj [(''$date'', (case v of None \<Rightarrow> JNull | Some x \<Rightarrow> x))]"

text \<open>Lines 188--209: the fields of \<^verbatim>\<open>requestData\<close> besides type, user and phone.\<close>

definition requestData :: "create_body \<Rightarrow> object" where
  "requestData body =
    (let get = map_of (b_rest body);
         base = put ''location'' (get ''location'') (put ''name'' (get ''name'') [])
     in case b_type body of
          Blood \<Rightarrow>
            put ''priority'' (get ''urgencyLevel'')
              (put ''urgencyLevel'' (get ''urgencyLevel'')
                (put ''bloodType'' (get ''bloodType'') base))
        | ElderSupport \<Rightarrow>
            put ''dueDate'' (Some (new_Date (get ''dueDate'')))
              (put ''serviceType'' (get ''serviceType'') base)
        | Complaint \<Rightarrow>
            put ''images''
              (Some (case get ''images'' of
                       None \<Rightarrow> JArr []
                     | Some v \<Rightarrow> if truthy v then v else JArr []))
              (put ''category'' (get ''category'')
                (put ''description'' (get ''description'')
                  (put ''title'' (get ''title'') base))))"

text \<open>Modelled from the spec: the schema of \<^verbatim>\<open>models/Request.js\<close> is not among the
  sources; a new document starts with \<^verbatim>\<open>status = pending\<close> and no accepters
  (spec, data model and Scenario A).\<close>

definition default_status :: string where
  "default_status = ''pending''"

definition default_accepters :: "accepter list" where
  "default_accepters = []"

text \<open>
  The handler of \<^verbatim>\<open>POST /\<close>. \<open>errors\<close> is \<^verbatim>\<open>validationResult(req)\<close>, \<open>new_id\<close> the
  \<^verbatim>\<open>_id\<close> the new document gets and \<open>now\<close> its creation time. In
  \<^verbatim>\<open>req.body.phone || user.phone\<close> the user document is read only when the body has no
  phone; an \<^verbatim>\<open>_id\<close> already in the collection makes the insert fail. The response carries
  the document and its populated owner.
\<close>

definition create_request ::
  "request list \<Rightarrow> user list \<Rightarrow> user_id \<Rightarrow> request_id \<Rightarrow> time \<Rightarrow> string list \<Rightarrow> create_body \<Rightarrow>
   error + (request list \<times> request \<times> user option)" where
  "create_request st us userId new_id now errors body =
    (if errors \<noteq> [] then Inl ValidationFailed
     else
       let user = findUser us userId in
       (case (if truthy_str (b_phone body) then Inr (b_phone body)
              else (case user of None \<Rightarrow> Inl ServerError | Some u \<Rightarrow> Inr (u_phone u))) of
          Inl e \<Rightarrow> Inl e
        | Inr phoneNumber \<Rightarrow>
           (case phoneNumber of
              None \<Rightarrow> Inl PhoneRequired
            | Some p \<Rightarrow>
               if p = [] then Inl PhoneRequired
               else if findById st new_id \<noteq> None then Inl ServerError
               else
                 let request = \<lparr>r_id = new_id, r_type = b_type body, r_user = userId,
                                r_phone = p, r_status = default_status,
                                r_accepters = default_accepters,
                                r_createdAt = now, r_updatedAt = now,
                                r_fields = requestData body\<rparr>
                 in Inr (st @ [request], request, user))))"

section \<open>PUT /:id (update) and DELETE /:id\<close>

definition allowedUpdates :: "string list" where
  "allowedUpdates = [''name'', ''location'', ''contactInfo'']"

fun typeSpecificUpdates :: "request_type \<Rightarrow> string list" where
  "typeSpecificUpdates Blood = [''bloodType'', ''urgencyLevel'']"
| "typeSpecificUpdates ElderSupport = [''serviceType'', ''dueDate'']"
| "typeSpecificUpdates Complaint = [''title'', ''description'', ''category'']"

text \<open>The two \<^verbatim>\<open>forEach\<close> loops: copy \<^verbatim>\<open>req.body[field]\<close> into \<^verbatim>\<open>updates\<close> when it is
  not undefined.\<close>

definition collect :: "object \<Rightarrow> string list \<Rightarrow> object \<Rightarrow> object" where
  "collect body names updates =
    fold (\<lambda>field upd. case map_of body field of None \<Rightarrow> upd | Some v \<Rightarrow> AList.update field v upd)
      names updates"

definition updates_of :: "request_type \<Rightarrow> object \<Rightarrow> object" where
  "updates_of ty body = collect body (typeSpecificUpdates ty) (collect body allowedUpdates [])"

text \<open>\<^verbatim>\<open>Object.assign(request, updates)\<close>. Every key of \<open>updates\<close> comes from the two
  constant lists above, none of which names \<^verbatim>\<open>_id\<close>, \<^verbatim>\<open>type\<close>, \<^verbatim>\<open>user\<close>, \<^verbatim>\<open>phone\<close>,
  \<^verbatim>\<open>status\<close>, \<^verbatim>\<open>accepters\<close> or a timestamp, so the assignment lands in \<open>r_fields\<close>.\<close>

definition object_assign :: "request \<Rightarrow> object \<Rightarrow> request" where
  "object_assign request updates =
    request\<lparr>r_fields := fold (\<lambda>(k, v) obj. AList.update k v obj) updates (r_fields request)\<rparr>"

text \<open>The \<^verbatim>\<open>save\<close> of line 446: the store sets the assigned fields on the document it
  holds.\<close>

definition save_set :: "request list \<Rightarrow> request_id \<Rightarrow> object \<Rightarrow> request list" where
  "save_set st rid updates = updateOne st rid (\<lambda>x. object_assign x updates)"

definition update_request ::
  "request list \<Rightarrow> user list \<Rightarrow> user_id \<Rightarrow> request_id \<Rightarrow> object \<Rightarrow>
   error + (request list \<times> request \<times> user option)" where
  "update_request st us userId rid body =
    (case findById st rid of
       None \<Rightarrow> Inl NotFound
     | Some request \<Rightarrow>
        if r_user request \<noteq> userId then Inl Forbidden
        else if r_status request \<noteq> ''pending'' then Inl NotPending
        else
          let updates = updates_of (r_type request) body;
              request' = object_assign request updates
          in Inr (save_set st (r_id request) updates, request', findUser us (r_user request')))"

definition delete_request :: "request list \<Rightarrow> user_id \<Rightarrow> request_id \<Rightarrow> error + request list" where
  "delete_request st userId rid =
    (case findById st rid of
       None \<Rightarrow> Inl NotFound
     | Some request \<Rightarrow>
        if r_user request \<noteq> userId then Inl Forbidden
        else Inr (findByIdAndDelete st rid))"

section \<open>GET /:id\<close>

text \<open>
  The document is returned with its owner populated and nothing hidden. In
  \<^verbatim>\<open>user.role === 'citizen' && request.user._id.toString() !== req.user.userId\<close> the
  populated owner is dereferenced only for a citizen.
\<close>

definition get_request ::
  "request list \<Rightarrow> user list \<Rightarrow> user_id \<Rightarrow> request_id \<Rightarrow> error + (request \<times> user option)" where
  "get_request st us userId rid =
    (case findById st rid of
       None \<Rightarrow> Inl NotFound
     | Some request \<Rightarrow>
        (case findUser us userId of
           None \<Rightarrow> Inl ServerError
         | Some user \<Rightarrow>
            if u_role user = ''citizen'' then
              (case findUser us (r_user request) of
                 None \<Rightarrow> Inl ServerError
               | Some owner \<Rightarrow>
                  if u_id owner \<noteq> userId then Inl Forbidden
                  else Inr (request, Some owner))
            else Inr (request, findUser us (r_user request))))"

section \<open>Populated documents and the reads that hide contact details\<close>

definition selected :: "user \<Rightarrow> populated_user" where
  "selected u = \<lparr>p_id = u_id u, p_name = u_name u, p_phone = u_phone u, p_email = u_email u\<rparr>"

text \<open>\<^verbatim>\<open>populate('accepters.user', 'name phone email')\<close>: each reference becomes the
  selected user document, or null.\<close>

definition populate_accepters :: "user list \<Rightarrow> request \<Rightarrow> populated_request" where
  "populate_accepters us r =
    \<lparr>r_id = r_id r, r_type = r_type r, r_user = r_user r, r_phone = r_phone r,
     r_status = r_status r,
     r_accepters = map (\<lambda>a. \<lparr>a_user = map_option selected (findUser us (a_user a)),
                               a_acceptedAt = a_acceptedAt a, a_status = a_status a\<rparr>)
                       (r_accepters r),
     r_createdAt = r_createdAt r, r_updatedAt = r_updatedAt r, r_fields = r_fields r\<rparr>"

text \<open>\<^verbatim>\<open>accepters.some(accepter => accepter.user._id.toString() === userId)\<close>: it stops
  at the first match and throws on a null user met before it.\<close>

fun some_accepter :: "user_id \<Rightarrow> populated_user option accepter_doc list \<Rightarrow> error + bool" where
  "some_accepter userId [] = Inr False"
| "some_accepter userId (accepter # rest) =
    (case a_user accepter of
       None \<Rightarrow> Inl ServerError
     | Some u \<Rightarrow> if p_id u = userId then Inr True else some_accepter userId rest)"

text \<open>\<^verbatim>\<open>xs.map(f)\<close> where \<open>f\<close> may throw.\<close>

fun map_err :: "('a \<Rightarrow> error + 'b) \<Rightarrow> 'a list \<Rightarrow> error + 'b list" where
  "map_err f [] = Inr []"
| "map_err f (x # xs) =
    (case f x of
       Inl e \<Rightarrow> Inl e
     | Inr y \<Rightarrow> (case map_err f xs of Inl e \<Rightarrow> Inl e | Inr ys \<Rightarrow> Inr (y # ys)))"

definition hide_accepter ::
  "populated_user option accepter_doc \<Rightarrow> error + populated_user option accepter_doc" where
  "hide_accepter accepter =
    (case a_user accepter of
       None \<Rightarrow> Inl ServerError
     | Some u \<Rightarrow> Inr (accepter\<lparr>a_user := Some \<lparr>p_id = p_id u, p_name = ''Hidden'',
                                                p_phone = Some ''Hidden'', p_email = ''Hidden''\<rparr>\<rparr>))"

text \<open>Lines 57--88, the callback that \<^verbatim>\<open>GET /\<close> maps over the documents it found.\<close>

definition list_filter :: "user_id \<Rightarrow> populated_request \<Rightarrow> error + populated_request" where
  "list_filter userId request =
    (let isOwner = (r_user request = userId) in
     case some_accepter userId (r_accepters request) of
       Inl e \<Rightarrow> Inl e
     | Inr isAccepter \<Rightarrow>
        if isOwner \<or> isAccepter then Inr request
        else (case map_err hide_accepter (r_accepters request) of
                Inl e \<Rightarrow> Inl e
              | Inr hidden \<Rightarrow>
                 Inr (request\<lparr>r_accepters := hidden,
                              r_phone := (if isOwner then r_phone request else ''Hidden'')\<rparr>)))"

text \<open>The query string of \<^verbatim>\<open>GET /\<close>; \<open>q_page\<close> and \<open>q_limit\<close> are \<^verbatim>\<open>parseInt(page)\<close>
  and \<^verbatim>\<open>parseInt(limit)\<close>.\<close>

record list_query =
  q_type :: "string option"
  q_status :: "string option"
  q_sortBy :: string
  q_page :: nat
  q_limit :: nat

fun split_comma :: "string \<Rightarrow> string list" where
  "split_comma [] = [[]]"
| "split_comma (c # cs) =
    (if c = CHR '','' then [] # split_comma cs
     else (case split_comma cs of [] \<Rightarrow> [[c]] | w # ws \<Rightarrow> (c # w) # ws))"

definition is_space :: "char \<Rightarrow> bool" where
  "is_space c = (c \<in> set [CHR '' '', CHR 0x09, CHR 0x0A, CHR 0x0B, CHR 0x0C, CHR 0x0D])"

definition trim :: "string \<Rightarrow> string" where
  "trim s = rev (dropWhile is_space (rev (dropWhile is_space s)))"

text \<open>The query \<^verbatim>\<open>{ user, type?, status: { $in } ? }\<close> of lines 21--29.\<close>

definition matches :: "user_id \<Rightarrow> list_query \<Rightarrow> request \<Rightarrow> bool" where
  "matches userId q r =
    (r_user r = userId \<and>
     (if truthy_str (q_type q) then q_type q = Some (type_name (r_type r)) else True) \<and>
     (case q_status q of
        None \<Rightarrow> True
      | Some s \<Rightarrow> if s = [] then True else r_status r \<in> set (map trim (split_comma s))))"

definition sort_by :: "string \<Rightarrow> request list \<Rightarrow> request list" where
  "sort_by sortBy rs =
    (if sortBy = ''oldest'' then sort_key r_createdAt rs
     else if sortBy = ''updated'' then rev (sort_key r_updatedAt rs)
     else rev (sort_key r_createdAt rs))"

text \<open>
  \<^verbatim>\<open>GET /\<close>: find, sort, skip, limit, then the callback on every document. A negative skip
  (page 0) is refused by the store; a limit of 0 is no limit. The result is the list of
  items and \<^verbatim>\<open>totalRequests\<close>.
\<close>

definition list_requests ::
  "request list \<Rightarrow> user list \<Rightarrow> user_id \<Rightarrow> list_query \<Rightarrow> error + (populated_request list \<times> nat)" where
  "list_requests st us userId q =
    (if q_page q = 0 \<and> q_limit q > 0 then Inl ServerError
     else
       let found = filter (matches userId q) st;
           skipped = drop ((q_page q - 1) * q_limit q) (sort_by (q_sortBy q) found);
           requests = (if q_limit q = 0 then skipped else take (q_limit q) skipped)
       in case map_err (list_filter userId) (map (populate_accepters us) requests) of
            Inl e \<Rightarrow> Inl e
          | Inr items \<Rightarrow> Inr (items, length found))"

section \<open>GET /public/blood\<close>

record public_user =
  pu_id :: user_id
  pu_name :: string

record public_item =
  pi_id :: request_id
  pi_name :: "json option"
  pi_phone :: string
  pi_location :: "json option"
  pi_bloodType :: "json option"
  pi_urgencyLevel :: "json option"
  pi_status :: string
  pi_createdAt :: time
  pi_user :: public_user

definition public_item_of :: "user list \<Rightarrow> request \<Rightarrow> error + public_item" where
  "public_item_of us request =
    (case findUser us (r_user request) of
       None \<Rightarrow> Inl ServerError
     | Some owner \<Rightarrow>
        Inr \<lparr>pi_id = r_id request,
             pi_name = map_of (r_fields request) ''name'',
             pi_phone = ''Hidden'',
             pi_location = map_of (r_fields request) ''location'',
             pi_bloodType = map_of (r_fields request) ''bloodType'',
             pi_urgencyLevel = map_of (r_fields request) ''urgencyLevel'',
             pi_status = r_status request,
             pi_createdAt = r_createdAt request,
             pi_user = \<lparr>pu_id = u_id owner, pu_name = ''Hidden''\<rparr>\<rparr>)"

definition public_blood :: "request list \<Rightarrow> user list \<Rightarrow> user_id \<Rightarrow> error + public_item list" where
  "public_blood st us userId =
    (let found = filter (\<lambda>r. r_type r = Blood \<and> r_status r = ''pending'' \<and>
                               r_user r \<noteq> userId \<and> r_accepters r = []) st;
         requests = take 50 (rev (sort_key r_createdAt found))
     in map_err (public_item_of us) requests)"

section \<open>GET /:id/contacts\<close>


section \<open>The invariant I1\<close>

text \<open>I1 of the specification: a blood request has at most one accepter.\<close>

definition I1 :: "request list \<Rightarrow> bool" where
  "I1 st = list_all (\<lambda>r. if r_type r = Blood then length (r_accepters r) \<le> 1 else True) st"

section \<open>The order of checks as the specification words it\<close>

text \<open>The failure of a result, if it is one.\<close>

definition failure_of :: "error + 'a \<Rightarrow> error option" where
  "failure_of x = (case x of Inl e \<Rightarrow> Some e | Inr _ \<Rightarrow> None)"

text \<open>
  The four preconditions of \<open>TryAccept\<close> in the order of the specification (section 4.1):
  the request exists, it is a blood request, the candidate is not its owner, it has no
  accepter yet. The result is the failure of the first one violated.
\<close>

definition spec_first_violated :: "request option \<Rightarrow> user_id \<Rightarrow> error option" where
  "spec_first_violated found candidate =
    (case found of
       None \<Rightarrow> Some NotFound
     | Some r \<Rightarrow>
        if r_type r \<noteq> Blood then Some WrongType
        else if candidate = r_user r then Some SelfAcceptance
        else if r_accepters r \<noteq> [] then Some AlreadyAccepted
        else None)"

text \<open>The same order with the check the handler makes between the third and the fourth:
  the candidate has a document in the user directory.\<close>

definition first_violated :: "user list \<Rightarrow> request option \<Rightarrow> user_id \<Rightarrow> error option" where
  "first_violated us found candidate =
    (case found of
       None \<Rightarrow> Some NotFound
     | Some r \<Rightarrow>
        if r_type r \<noteq> Blood then Some WrongType
        else if candidate = r_user r then Some SelfAcceptance
        else if findUser us candidate = None then Some VolunteerNotFound
        else if r_accepters r \<noteq> [] then Some AlreadyAccepted
        else None)"

section \<open>An example store\<close>

definition user1 :: user where
  "user1 = \<lparr>u_id = ''u1'', u_name = ''Asha'', u_phone = Some ''9000000001'',
            u_email = ''asha@example.org'', u_role = ''citizen''\<rparr>"
definition user2 :: user where
  "user2 = \<lparr>u_id = ''u2'', u_name = ''Bina'', u_phone = Some ''9000000002'',
            u_email = ''bina@example.org'', u_role = ''volunteer''\<rparr>"
definition user3 :: user where
  "user3 = \<lparr>u_id = ''u3'', u_name = ''Chetan'', u_phone = None,
            u_email = ''chetan@example.org'', u_role = ''citizen''\<rparr>"
definition users0 :: "user list" where "users0 = [user1, user2, user3]"
definition request1 :: request where
  "request1 = \<lparr>r_id = ''r1'', r_type = Blood, r_user = ''u1'', r_phone = ''9000000001'',
     r_status = ''pending'', r_accepters = [], r_createdAt = 1, r_updatedAt = 1,
     r_fields = [(''name'', JStr ''Asha''), (''bloodType'', JStr ''O+''), (''urgencyLevel'', JStr ''urgent'')]\<rparr>"

definition request_taken :: request where
  "request_taken = request1\<lparr>r_status := ''accepted'',
     r_accepters := [\<lparr>a_user = ''u2'', a_acceptedAt = 4, a_status = ''accepted''\<rparr>]\<rparr>"

definition request_elder :: request where
  "request_elder = \<lparr>r_id = ''r2'', r_type = ElderSupport, r_user = ''u3'', r_phone = ''9000000003'',
     r_status = ''pending'', r_accepters = [], r_createdAt = 2, r_updatedAt = 2,
     r_fields = [(''name'', JStr ''Chetan''), (''serviceType'', JStr ''groceries'')]\<rparr>"



text \<open>The request \<open>r1\<close> after \<open>u2\<close>, and after \<open>u3\<close>, volunteered for it.\<close>

definition request_by_u2 :: request where
  "request_by_u2 = request1\<lparr>r_accepters := [\<lparr>a_user = ''u2'', a_acceptedAt = 5, a_status = ''accepted''\<rparr>],
                            r_status := ''accepted''\<rparr>"

definition request_by_u3 :: request where
  "request_by_u3 = request1\<lparr>r_accepters := [\<lparr>a_user = ''u3'', a_acceptedAt = 6, a_status = ''accepted''\<rparr>],
                            r_status := ''accepted''\<rparr>"

text \<open>The request \<open>r1\<close> holding the records of both.\<close>

definition request_by_both :: request where
  "request_by_both = request1\<lparr>r_accepters := [\<lparr>a_user = ''u2'', a_acceptedAt = 5, a_status = ''accepted''\<rparr>,
                                              \<lparr>a_user = ''u3'', a_acceptedAt = 6, a_status = ''accepted''\<rparr>],
                              r_status := ''accepted''\<rparr>"

text \<open>The item that \<^verbatim>\<open>GET /public/blood\<close> makes of \<open>request1\<close>.\<close>

definition public_item1 :: public_item where
  "public_item1 = \<lparr>pi_id = ''r1'', pi_name = Some (JStr ''Asha''), pi_phone = ''Hidden'',
     pi_location = None, pi_bloodType = Some (JStr ''O+''),
     pi_urgencyLevel = Some (JStr ''urgent''), pi_status = ''pending'', pi_createdAt = 1,
     pi_user = \<lparr>pu_id = ''u1'', pu_name = ''Hidden''\<rparr>\<rparr>"

text \<open>The default query of \<^verbatim>\<open>GET /\<close>: no filter, newest first, page 1 of 10.\<close>

definition query0 :: list_query where
  "query0 = \<lparr>q_type = None, q_status = None, q_sortBy = ''newest'', q_page = 1, q_limit = 10\<rparr>"

text \<open>A body for \<^verbatim>\<open>PUT /r1\<close> with one generic key, one key of the blood list and two keys
  outside the allow-list of a blood request, and the document it leaves.\<close>

definition body_put :: object where
  "body_put = [(''contactInfo'', JStr ''ward 4''), (''status'', JStr ''accepted''),
               (''bloodType'', JStr ''A+''), (''title'', JStr ''x'')]"

definition request1_put :: request where
  "request1_put = request1\<lparr>r_fields := [(''name'', JStr ''Asha''), (''bloodType'', JStr ''A+''),
     (''urgencyLevel'', JStr ''urgent''), (''contactInfo'', JStr ''ward 4'')]\<rparr>"

text \<open>A body for \<^verbatim>\<open>POST /\<close> without a phone.\<close>

definition body_blood :: create_body where
  "body_blood = \<lparr>b_type = Blood, b_phone = None,
     b_rest = [(''name'', JStr ''Asha''), (''bloodType'', JStr ''O+''),
               (''urgencyLevel'', JStr ''urgent'')]\<rparr>"

section \<open>Lookups and writes\<close>

lemma findById_Some: "findById st rid = Some r \<Longrightarrow> r \<in> set st \<and> r_id r = rid"
  by (auto simp: findById_def find_Some_iff)

lemma findUser_Some: "findUser us uid = Some u \<Longrightarrow> u \<in> set us \<and> u_id u = uid"
  by (auto simp: findUser_def find_Some_iff)

lemma findById_updateOne:
  "\<forall>x. r_id (g x) = r_id x \<Longrightarrow>
   findById (updateOne st rid g) rid' =
    (if rid' = rid then map_option g (findById st rid) else findById st rid')"
  unfolding findById_def updateOne_def
  by (induction st) auto


lemma volunteer_check_not_already_volunteered:
  "volunteer_check us userId found now \<noteq> Inl AlreadyVolunteered"
  by (auto simp: volunteer_check_def split: option.splits)

lemma volunteer_Inl:
  "volunteer st us userId rid t1 t2 t3 = Inl e \<longleftrightarrow>
   volunteer_check us userId (findById st rid) t1 = Inl e"
  by (auto simp: volunteer_def volunteer_finish_def split: sum.splits prod.splits)



lemmas example_defs = findById_def findUser_def updateOne_def save_push_def pushed_def
  save_set_def request1_def users0_def user1_def
  user2_def user3_def

lemma findById_append:
  "findById (st @ [r]) rid' =
    (case findById st rid' of Some x \<Rightarrow> Some x | None \<Rightarrow> if r_id r = rid' then Some r else None)"
  unfolding findById_def
  by (induction st) auto

lemma object_assign_frame:
  "r_type (object_assign r upd) = r_type r \<and> r_accepters (object_assign r upd) = r_accepters r \<and>
   r_id (object_assign r upd) = r_id r \<and> r_user (object_assign r upd) = r_user r \<and>
   r_status (object_assign r upd) = r_status r \<and> r_phone (object_assign r upd) = r_phone r \<and>
   r_createdAt (object_assign r upd) = r_createdAt r \<and> r_updatedAt (object_assign r upd) = r_updatedAt r"
  by (simp add: object_assign_def)



lemma map_err_Inr:
  "map_err f xs = Inr ys \<Longrightarrow> list_all2 (\<lambda>x y. f x = Inr y) xs ys"
  by (induction xs arbitrary: ys) (auto split: sum.splits)

lemma map_err_Inr_set:
  "map_err f xs = Inr ys \<Longrightarrow> y \<in> set ys \<Longrightarrow> \<exists>x \<in> set xs. f x = Inr y"
  by (induction xs arbitrary: ys) (auto split: sum.splits)

lemma list_filter_owner:
  "list_filter viewer pr = Inr item \<Longrightarrow> r_user pr = viewer \<Longrightarrow> item = pr"
  by (auto simp: list_filter_def Let_def split: sum.splits)

lemma list_filter_user:
  "list_filter viewer pr = Inr item \<Longrightarrow> r_user item = r_user pr"
  by (auto simp: list_filter_def Let_def split: sum.splits if_splits)

lemma set_sort_by: "set (sort_by k rs) = set rs"
  by (simp add: sort_by_def)

lemma list_requests_items:
  assumes "list_requests st us viewer q = Inr (items, n)" and "item \<in> set items"
  shows "\<exists>r \<in> set st. r_user r = viewer \<and> item = populate_accepters us r"
proof -
  let ?found = "filter (matches viewer q) st"
  let ?skipped = "drop ((q_page q - 1) * q_limit q) (sort_by (q_sortBy q) ?found)"
  let ?requests = "if q_limit q = 0 then ?skipped else take (q_limit q) ?skipped"
  from assms(1) have m: "map_err (list_filter viewer) (map (populate_accepters us) ?requests) = Inr items"
    by (auto simp: list_requests_def Let_def split: if_splits sum.splits)
  from map_err_Inr_set [OF m assms(2)] obtain r where
    r: "r \<in> set ?requests" and i: "list_filter viewer (populate_accepters us r) = Inr item"
    by auto
  from r have "r \<in> set ?skipped" by (auto split: if_splits dest: in_set_takeD)
  then have "r \<in> set (sort_by (q_sortBy q) ?found)" by (rule in_set_dropD)
  then have s: "r \<in> set st" and u: "r_user r = viewer"
    by (auto simp: set_sort_by matches_def)
  from u have "r_user (populate_accepters us r) = viewer" by (simp add: populate_accepters_def)
  with i have "item = populate_accepters us r" by (rule list_filter_owner)
  with s u show ?thesis by blast
qed

lemma collect_lookup:
  "map_of (collect body names upd) f =
    (if f \<in> set names \<and> map_of body f \<noteq> None then map_of body f else map_of upd f)"
  unfolding collect_def
  by (induction names arbitrary: upd) (auto simp: update_conv' split: option.splits)

lemma collect_distinct:
  "distinct (map fst upd) \<Longrightarrow> distinct (map fst (collect body names upd))"
  unfolding collect_def
  by (induction names arbitrary: upd) (auto simp: distinct_update split: option.splits)

lemma assign_lookup:
  "distinct (map fst upd) \<Longrightarrow>
   map_of (fold (\<lambda>(k, v) obj. AList.update k v obj) upd obj) f =
    (case map_of upd f of Some v \<Rightarrow> Some v | None \<Rightarrow> map_of obj f)"
proof (induction upd arbitrary: obj)
  case Nil
  then show ?case by simp
next
  case (Cons kv upd)
  obtain k v where kv: "kv = (k, v)" by (cases kv)
  from Cons.prems kv have d: "distinct (map fst upd)" and n: "k \<notin> fst ` set upd" by auto
  from n have "map_of upd k = None" by (simp add: map_of_eq_None_iff)
  with Cons.IH [OF d, of "AList.update k v obj"] kv show ?case
    by (auto simp: update_conv' split: option.splits)
qed

lemma updates_of_lookup:
  "map_of (updates_of ty body) f =
    (if f \<in> set allowedUpdates \<union> set (typeSpecificUpdates ty) then map_of body f else None)"
  by (auto simp: updates_of_def collect_lookup)

lemma updates_of_distinct: "distinct (map fst (updates_of ty body))"
  by (simp add: updates_of_def collect_distinct)

lemma object_assign_fields:
  "map_of (r_fields (object_assign r (updates_of ty body))) f =
    (if f \<in> set allowedUpdates \<union> set (typeSpecificUpdates ty)
     then (case map_of body f of Some v \<Rightarrow> Some v | None \<Rightarrow> map_of (r_fields r) f)
     else map_of (r_fields r) f)"
  by (simp add: object_assign_def assign_lookup [OF updates_of_distinct] updates_of_lookup)

section \<open>The claims\<close>

text \<open>
  C10. In the volunteer operation the "already volunteered" branch is never taken: whenever
  some accepter of the loaded request is the candidate, the accepters sequence is not
  empty, and the check before it has returned \<open>AlreadyAccepted\<close>. So no invocation
  returns the already-volunteered failure, whatever the store, the users, the candidate
  and the outcome of the write.
\<close>

theorem volunteer_never_already_volunteered:
  "(list_ex (\<lambda>accepter. a_user accepter = userId) (r_accepters request) \<longrightarrow>
      length (r_accepters request) > 0) \<and>
   volunteer_check us userId found now \<noteq> Inl AlreadyVolunteered \<and>
   fst (volunteer_finish write st us userId found t1 t2 t3) \<noteq> Inl AlreadyVolunteered \<and>
   volunteer st us userId rid t1 t2 t3 \<noteq> Inl AlreadyVolunteered"
proof -
  have a: "list_ex (\<lambda>accepter. a_user accepter = userId) (r_accepters request) \<longrightarrow>
      length (r_accepters request) > 0"
    by (cases "r_accepters request") auto
  have b: "volunteer_check us userId found t \<noteq> Inl AlreadyVolunteered" for found t
    by (rule volunteer_check_not_already_volunteered)
  have c: "fst (volunteer_finish write st us userId found t1 t2 t3) \<noteq> Inl AlreadyVolunteered"
    using b [of found t1]
    by (auto simp: volunteer_finish_def split: sum.splits option.splits)
  have d: "volunteer st us userId rid t1 t2 t3 \<noteq> Inl AlreadyVolunteered"
    using b [of "findById st rid" t1] by (simp add: volunteer_Inl)
  from a b c d show ?thesis by blast
qed



text \<open>Witness: on a request that the candidate \<open>u2\<close> has accepted, the test of the
  already-volunteered branch holds and the answer is \<open>AlreadyAccepted\<close>.\<close>

theorem volunteer_never_already_volunteered_witness:
  "list_ex (\<lambda>accepter. a_user accepter = ''u2'') (r_accepters request_taken) \<and>
   length (r_accepters request_taken) > 0 \<and>
   volunteer [request_taken] users0 ''u2'' ''r1'' 5 6 7 = Inl AlreadyAccepted \<and>
   volunteer [request_taken] users0 ''u2'' ''r1'' 5 6 7 \<noteq> Inl AlreadyVolunteered"
  using volunteer_never_already_volunteered [where request = request_taken and userId = "''u2''"
      and st = "[request_taken]" and us = users0 and rid = "''r1''" and ?t1.0 = 5 and ?t2.0 = 6
      and ?t3.0 = 7]
  by (simp add: volunteer_def volunteer_finish_def volunteer_check_def findById_def findUser_def
      request_taken_def request1_def users0_def user1_def user2_def user3_def)

text \<open>
  C3 (as amended). The volunteer operation checks, in this order and each with its own
  failure: the request exists (\<open>NotFound\<close>), its type is blood (\<open>WrongType\<close>), the
  candidate is not its owner (\<open>SelfAcceptance\<close>), the candidate has a document in the
  user directory (\<open>VolunteerNotFound\<close>), the request has no accepter (\<open>AlreadyAccepted\<close>).
  Whenever the owner of a blood request is in the user directory, the failure returned is
  that of the first violated check in this order, and the operation succeeds when none is
  violated. For a candidate who is in the user directory this is the order of the
  specification.
\<close>

theorem volunteer_failure_order:
  assumes "\<forall>r. findById st rid = Some r \<and> r_type r = Blood \<longrightarrow> findUser us (r_user r) \<noteq> None"
  shows "failure_of (volunteer st us userId rid t1 t2 t3) = first_violated us (findById st rid) userId \<and>
         (findUser us userId \<noteq> None \<longrightarrow>
            failure_of (volunteer st us userId rid t1 t2 t3) = spec_first_violated (findById st rid) userId)"
proof -
  have "failure_of (volunteer st us userId rid t1 t2 t3) = first_violated us (findById st rid) userId"
  proof (cases "findById st rid")
    case None
    then show ?thesis
      by (simp add: failure_of_def first_violated_def volunteer_def volunteer_finish_def
          volunteer_check_def)
  next
    case (Some r)
    show ?thesis
    proof (cases "r_type r = Blood")
      case False
      with Some show ?thesis
        by (simp add: failure_of_def first_violated_def volunteer_def volunteer_finish_def
            volunteer_check_def)
    next
      case True
      with Some assms obtain owner where o: "findUser us (r_user r) = Some owner" by auto
      then have "u_id owner = r_user r" by (simp add: findUser_Some)
      with Some True o show ?thesis
        by (auto simp: failure_of_def first_violated_def volunteer_def volunteer_finish_def
            volunteer_check_def split: option.splits)
    qed
  qed
  moreover have "findUser us userId \<noteq> None \<Longrightarrow>
      first_violated us (findById st rid) userId = spec_first_violated (findById st rid) userId"
    by (auto simp: first_violated_def spec_first_violated_def split: option.splits)
  ultimately show ?thesis by simp
qed

text \<open>Witness: one input for each of the five failures and one for success.\<close>

theorem volunteer_failure_order_witness:
  "failure_of (volunteer [request1] users0 ''u2'' ''r9'' 5 6 7) = Some NotFound \<and>
   failure_of (volunteer [request_elder] users0 ''u2'' ''r2'' 5 6 7) = Some WrongType \<and>
   failure_of (volunteer [request1] users0 ''u1'' ''r1'' 5 6 7) = Some SelfAcceptance \<and>
   failure_of (volunteer [request_taken] users0 ''u9'' ''r1'' 5 6 7) = Some VolunteerNotFound \<and>
   failure_of (volunteer [request_taken] users0 ''u3'' ''r1'' 5 6 7) = Some AlreadyAccepted \<and>
   failure_of (volunteer [request1] users0 ''u2'' ''r1'' 5 6 7) = None"
proof -
  have o1: "\<forall>r. findById [request1] rid = Some r \<and> r_type r = Blood \<longrightarrow> findUser users0 (r_user r) \<noteq> None" for rid
    by (simp add: findById_def findUser_def request1_def users0_def user1_def)
  have o2: "\<forall>r. findById [request_elder] ''r2'' = Some r \<and> r_type r = Blood \<longrightarrow> findUser users0 (r_user r) \<noteq> None"
    by (simp add: findById_def request_elder_def)
  have o3: "\<forall>r. findById [request_taken] ''r1'' = Some r \<and> r_type r = Blood \<longrightarrow> findUser users0 (r_user r) \<noteq> None"
    by (simp add: findById_def findUser_def request_taken_def request1_def users0_def user1_def)
  note defs = first_violated_def findById_def findUser_def request1_def request_taken_def
        request_elder_def users0_def user1_def user2_def user3_def
  have "failure_of (volunteer [request1] users0 ''u2'' ''r9'' 5 6 7) = Some NotFound"
    using volunteer_failure_order [where st = "[request1]" and rid = "''r9''" and us = users0
        and userId = "''u2''" and ?t1.0 = 5 and ?t2.0 = 6 and ?t3.0 = 7] o1
    by (simp add: defs)
  moreover have "failure_of (volunteer [request_elder] users0 ''u2'' ''r2'' 5 6 7) = Some WrongType"
    using volunteer_failure_order [where st = "[request_elder]" and rid = "''r2''" and us = users0
        and userId = "''u2''" and ?t1.0 = 5 and ?t2.0 = 6 and ?t3.0 = 7] o2
    by (simp add: defs)
  moreover have "failure_of (volunteer [request1] users0 ''u1'' ''r1'' 5 6 7) = Some SelfAcceptance"
    using volunteer_failure_order [where st = "[request1]" and rid = "''r1''" and us = users0
        and userId = "''u1''" and ?t1.0 = 5 and ?t2.0 = 6 and ?t3.0 = 7] o1
    by (simp add: defs)
  moreover have "failure_of (volunteer [request_taken] users0 ''u9'' ''r1'' 5 6 7) = Some VolunteerNotFound"
    using volunteer_failure_order [where st = "[request_taken]" and rid = "''r1''" and us = users0
        and userId = "''u9''" and ?t1.0 = 5 and ?t2.0 = 6 and ?t3.0 = 7] o3
    by (simp add: defs)
  moreover have "failure_of (volunteer [request_taken] users0 ''u3'' ''r1'' 5 6 7) = Some AlreadyAccepted"
    using volunteer_failure_order [where st = "[request_taken]" and rid = "''r1''" and us = users0
        and userId = "''u3''" and ?t1.0 = 5 and ?t2.0 = 6 and ?t3.0 = 7] o3
    by (simp add: defs)
  moreover have "failure_of (volunteer [request1] users0 ''u2'' ''r1'' 5 6 7) = None"
    using volunteer_failure_order [where st = "[request1]" and rid = "''r1''" and us = users0
        and userId = "''u2''" and ?t1.0 = 5 and ?t2.0 = 6 and ?t3.0 = 7] o1
    by (simp add: defs)
  ultimately show ?thesis by blast
qed

text \<open>
  C3 as stated fails: the request \<open>r1\<close> exists, is a blood request, is not owned by \<open>u9\<close>
  and already has an accepter, so the first violated precondition of the four is the last
  one; but \<open>u9\<close> has no user document, and the handler answers "Volunteer not found".
\<close>

theorem volunteer_failure_order_counterexample:
  "spec_first_violated (findById [request_taken] ''r1'') ''u9'' = Some AlreadyAccepted \<and>
   volunteer [request_taken] users0 ''u9'' ''r1'' 5 6 7 = Inl VolunteerNotFound"
  by (simp add: spec_first_violated_def volunteer_def volunteer_finish_def volunteer_check_def
      findById_def findUser_def request_taken_def request1_def users0_def user1_def user2_def
      user3_def)





text \<open>
  C1. I1 is what the handler aims at (its comments: a one-to-one system, only one
  accepter allowed) and it does not hold at all times. On the pending blood request \<open>r1\<close>,
  where I1 holds, \<open>u2\<close> and \<open>u3\<close> volunteer, both past their \<^verbatim>\<open>findById\<close> before either
  saves. Each handler checks the empty sequence it loaded and pushes; the store appends
  both records, the second one to a sequence that is no longer empty, and I1 fails on the
  store they leave.
\<close>

theorem accepters_race_two_records:
  "I1 [request1] \<and> r_accepters request1 = [] \<and>
   snd (snd (volunteer_race (\<lambda>s r. Some (save_push s r)) [request1] users0 ''r1'' ''u2'' ''u3'' 5 6)) =
     [request_by_both] \<and>
   save_push [request_by_u2] request_by_u3 = [request_by_both] \<and>
   r_accepters request_by_u2 = [\<lparr>a_user = ''u2'', a_acceptedAt = 5, a_status = ''accepted''\<rparr>] \<and>
   r_accepters request_by_both =
     [\<lparr>a_user = ''u2'', a_acceptedAt = 5, a_status = ''accepted''\<rparr>,
      \<lparr>a_user = ''u3'', a_acceptedAt = 6, a_status = ''accepted''\<rparr>] \<and>
   r_type request_by_both = Blood \<and> length (r_accepters request_by_both) = 2 \<and>
   \<not> I1 [request_by_both]"
proof -
  have chk2: "volunteer_check users0 ''u2'' (findById [request1] ''r1'') 5 =
      Inr (request_by_u2, user1, user2)"
    by (simp add: volunteer_check_def request_by_u2_def example_defs)
  have chk3: "volunteer_check users0 ''u3'' (findById [request1] ''r1'') 6 =
      Inr (request_by_u3, user1, user3)"
    by (simp add: volunteer_check_def request_by_u3_def example_defs)
  have w2: "save_push [request1] request_by_u2 = [request_by_u2]"
    by (simp add: save_push_def updateOne_def pushed_def request_by_u2_def request1_def)
  have w3: "save_push [request_by_u2] request_by_u3 = [request_by_both]"
    by (simp add: save_push_def updateOne_def pushed_def request_by_u2_def request_by_u3_def
        request_by_both_def request1_def)
  have a: "I1 [request1] \<and> r_accepters request1 = []"
    by (simp add: I1_def request1_def)
  have b: "snd (snd (volunteer_race (\<lambda>s r. Some (save_push s r)) [request1] users0 ''r1'' ''u2'' ''u3'' 5 6)) =
     [request_by_both]"
    by (simp add: volunteer_race_def volunteer_finish_def chk2 chk3 w2 w3 Let_def)
  have c: "r_accepters request_by_u2 = [\<lparr>a_user = ''u2'', a_acceptedAt = 5, a_status = ''accepted''\<rparr>] \<and>
     r_accepters request_by_both =
     [\<lparr>a_user = ''u2'', a_acceptedAt = 5, a_status = ''accepted''\<rparr>,
      \<lparr>a_user = ''u3'', a_acceptedAt = 6, a_status = ''accepted''\<rparr>] \<and>
     r_type request_by_both = Blood \<and> length (r_accepters request_by_both) = 2"
    by (simp add: request_by_u2_def request_by_both_def request1_def)
  have d: "\<not> I1 [request_by_both]"
    by (simp add: I1_def request_by_both_def request1_def)
  from a b w3 c d show ?thesis by blast
qed

text \<open>
  C2. Two volunteer invocations by \<open>u2\<close> and \<open>u3\<close> on the pending blood request \<open>r1\<close>,
  both past their \<^verbatim>\<open>findById\<close> before either saves: whatever the write does, neither gets
  \<open>AlreadyAccepted\<close>; with the save of the store, both succeed and the store records
  both acceptances. Run one after the other, the first succeeds and the second gets
  \<open>AlreadyAccepted\<close>.
\<close>

theorem volunteer_race_two_successes:
  "fst (volunteer_race write [request1] users0 ''r1'' ''u2'' ''u3'' 5 6) \<noteq> Inl AlreadyAccepted \<and>
   fst (snd (volunteer_race write [request1] users0 ''r1'' ''u2'' ''u3'' 5 6)) \<noteq> Inl AlreadyAccepted \<and>
   volunteer_race (\<lambda>s r. Some (save_push s r)) [request1] users0 ''r1'' ''u2'' ''u3'' 5 6 =
     (Inr (volunteer_reply request_by_u2 user1 user2 5 5),
      Inr (volunteer_reply request_by_u3 user1 user3 6 6),
      [request_by_both]) \<and>
   volunteer [request1] users0 ''u2'' ''r1'' 5 5 5 =
     Inr ([request_by_u2], volunteer_reply request_by_u2 user1 user2 5 5) \<and>
   volunteer [request_by_u2] users0 ''u3'' ''r1'' 6 6 6 = Inl AlreadyAccepted"
proof -
  have chk2: "volunteer_check users0 ''u2'' (findById [request1] ''r1'') 5 =
      Inr (request_by_u2, user1, user2)"
    by (simp add: volunteer_check_def request_by_u2_def example_defs)
  have chk3: "volunteer_check users0 ''u3'' (findById [request1] ''r1'') 6 =
      Inr (request_by_u3, user1, user3)"
    by (simp add: volunteer_check_def request_by_u3_def example_defs)
  have a: "fst (volunteer_race write [request1] users0 ''r1'' ''u2'' ''u3'' 5 6) \<noteq> Inl AlreadyAccepted"
    by (simp add: volunteer_race_def volunteer_finish_def chk2 chk3 Let_def
        split: option.splits prod.splits)
  have b: "fst (snd (volunteer_race write [request1] users0 ''r1'' ''u2'' ''u3'' 5 6)) \<noteq> Inl AlreadyAccepted"
    by (simp add: volunteer_race_def volunteer_finish_def chk2 chk3 Let_def
        split: option.splits prod.splits)
  have w2: "save_push [request1] request_by_u2 = [request_by_u2]"
    by (simp add: save_push_def updateOne_def pushed_def request_by_u2_def request1_def)
  have w3: "save_push [request_by_u2] request_by_u3 = [request_by_both]"
    by (simp add: save_push_def updateOne_def pushed_def request_by_u2_def request_by_u3_def
        request_by_both_def request1_def)
  have c: "volunteer_race (\<lambda>s r. Some (save_push s r)) [request1] users0 ''r1'' ''u2'' ''u3'' 5 6 =
     (Inr (volunteer_reply request_by_u2 user1 user2 5 5),
      Inr (volunteer_reply request_by_u3 user1 user3 6 6),
      [request_by_both])"
    by (simp add: volunteer_race_def volunteer_finish_def chk2 chk3 w2 w3 Let_def)
  have d: "volunteer [request1] users0 ''u2'' ''r1'' 5 5 5 =
     Inr ([request_by_u2], volunteer_reply request_by_u2 user1 user2 5 5)"
    by (simp add: volunteer_def volunteer_finish_def chk2 w2)
  have e: "volunteer [request_by_u2] users0 ''u3'' ''r1'' 6 6 6 = Inl AlreadyAccepted"
    by (simp add: volunteer_def volunteer_finish_def volunteer_check_def request_by_u2_def
        example_defs)
  from a b c d e show ?thesis by blast
qed





text \<open>
  C6 (as amended). In the listing of open blood requests (\<^verbatim>\<open>GET /public/blood\<close>) every
  returned item has its phone field and the name of the owner's user document
  (\<^verbatim>\<open>user.name\<close>) set to the fixed value \<open>Hidden\<close>, whatever the stored phone and the owner's
  name are. Each item comes from a stored pending blood request without accepters that
  the viewer does not own; its \<^verbatim>\<open>name\<close> field is not hidden: it is the \<^verbatim>\<open>name\<close> that the
  requester entered when creating the request.
\<close>

theorem public_blood_redacted:
  assumes "public_blood st us viewer = Inr items"
  shows "\<forall>item \<in> set items.
           pi_phone item = ''Hidden'' \<and> pu_name (pi_user item) = ''Hidden'' \<and>
           (\<exists>r \<in> set st. pi_id item = r_id r \<and> pu_id (pi_user item) = r_user r \<and>
              pi_name item = map_of (r_fields r) ''name'' \<and>
              r_type r = Blood \<and> r_status r = ''pending'' \<and> r_accepters r = [] \<and>
              r_user r \<noteq> viewer)"
proof
  fix item assume "item \<in> set items"
  with assms obtain r where
    r: "r \<in> set (take 50 (rev (sort_key r_createdAt
          (filter (\<lambda>r. r_type r = Blood \<and> r_status r = ''pending'' \<and>
                       r_user r \<noteq> viewer \<and> r_accepters r = []) st))))"
    and i: "public_item_of us r = Inr item"
    unfolding public_blood_def Let_def by (blast dest: map_err_Inr_set)
  from r have "r \<in> set (rev (sort_key r_createdAt
          (filter (\<lambda>r. r_type r = Blood \<and> r_status r = ''pending'' \<and>
                       r_user r \<noteq> viewer \<and> r_accepters r = []) st)))"
    by (rule in_set_takeD)
  then have m: "r \<in> set st \<and> r_type r = Blood \<and> r_status r = ''pending'' \<and>
      r_user r \<noteq> viewer \<and> r_accepters r = []"
    by simp
  from i obtain owner where o: "findUser us (r_user r) = Some owner"
    by (auto simp: public_item_of_def split: option.splits)
  then have "u_id owner = r_user r" by (simp add: findUser_Some)
  with i o m show "pi_phone item = ''Hidden'' \<and> pu_name (pi_user item) = ''Hidden'' \<and>
           (\<exists>r \<in> set st. pi_id item = r_id r \<and> pu_id (pi_user item) = r_user r \<and>
              pi_name item = map_of (r_fields r) ''name'' \<and>
              r_type r = Blood \<and> r_status r = ''pending'' \<and> r_accepters r = [] \<and>
              r_user r \<noteq> viewer)"
    by (auto simp: public_item_of_def)
qed

text \<open>Witness: the listing seen by \<open>u2\<close> holds the one open blood request, with both
  fields hidden although the request has a phone and its owner a name.\<close>

theorem public_blood_redacted_witness:
  "public_blood [request1, request_elder] users0 ''u2'' = Inr [public_item1] \<and>
   r_phone request1 = ''9000000001'' \<and> u_name user1 = ''Asha'' \<and>
   pi_phone public_item1 = ''Hidden'' \<and> pu_name (pi_user public_item1) = ''Hidden''"
proof -
  have run: "public_blood [request1, request_elder] users0 ''u2'' = Inr [public_item1]"
    by (simp add: public_blood_def public_item_of_def public_item1_def request_elder_def
        example_defs)
  from public_blood_redacted [OF run]
  have "pi_phone public_item1 = ''Hidden'' \<and> pu_name (pi_user public_item1) = ''Hidden''"
    by simp
  with run show ?thesis
    by (simp add: request1_def user1_def)
qed

text \<open>
  C6 as stated fails: \<^verbatim>\<open>POST /\<close> stores the name of the body in the request, and the item
  that the listing shows to \<open>u2\<close> carries it in its \<^verbatim>\<open>name\<close> field: the real name of the
  owner \<open>u1\<close>, not the fixed value.
\<close>

theorem public_blood_name_counterexample:
  "map_of (requestData body_blood) ''name'' = Some (JStr ''Asha'') \<and>
   map_of (r_fields request1) ''name'' = map_of (requestData body_blood) ''name'' \<and>
   r_user request1 = u_id user1 \<and> u_name user1 = ''Asha'' \<and>
   public_blood [request1, request_elder] users0 ''u2'' = Inr [public_item1] \<and>
   pi_name public_item1 = Some (JStr (u_name user1)) \<and>
   pi_name public_item1 \<noteq> Some (JStr ''Hidden'')"
  by (simp add: requestData_def put_def body_blood_def public_blood_def public_item_of_def
      public_item1_def request_elder_def example_defs)

text \<open>
  C7 (as amended). For a pending blood request with no accepters and a viewer who has a
  user document:
  \<^item> the owner gets it from \<^verbatim>\<open>GET /:id\<close> with its populated owner, and every item that
    \<^verbatim>\<open>GET /\<close> returns to the owner is a stored request of the owner as populated, nothing
    hidden;
  \<^item> a viewer other than the owner never gets it from \<^verbatim>\<open>GET /\<close>, which selects the
    viewer's own requests only (the callback of \<^verbatim>\<open>GET /\<close>, applied to it for such a
    viewer, sets its phone to \<open>Hidden\<close>);
  \<^item> \<^verbatim>\<open>GET /:id\<close> fails \<open>Forbidden\<close> for such a viewer whose role is \<open>citizen\<close>, and
    for any other role it returns the request and its populated owner with nothing hidden.
\<close>

theorem list_get_visibility:
  assumes f: "findById st rid = Some r"
    and p: "r_type r = Blood" "r_status r = ''pending''" "r_accepters r = []"
    and v: "findUser us viewer = Some v"
  shows
    "(viewer = r_user r \<longrightarrow>
        get_request st us viewer rid = Inr (r, Some v) \<and>
        list_filter viewer (populate_accepters us r) = Inr (populate_accepters us r) \<and>
        r_phone (populate_accepters us r) = r_phone r \<and>
        (\<forall>q items n. list_requests st us viewer q = Inr (items, n) \<longrightarrow>
           (\<forall>item \<in> set items. \<exists>r0 \<in> set st. r_user r0 = viewer \<and> item = populate_accepters us r0))) \<and>
     (viewer \<noteq> r_user r \<longrightarrow>
        list_filter viewer (populate_accepters us r) =
          Inr ((populate_accepters us r)\<lparr>r_phone := ''Hidden''\<rparr>) \<and>
        (\<forall>q items n. list_requests st us viewer q = Inr (items, n) \<longrightarrow>
           (\<forall>item \<in> set items. r_user item \<noteq> r_user r)) \<and>
        (u_role v = ''citizen'' \<and> findUser us (r_user r) \<noteq> None \<longrightarrow>
           get_request st us viewer rid = Inl Forbidden) \<and>
        (u_role v \<noteq> ''citizen'' \<longrightarrow>
           get_request st us viewer rid = Inr (r, findUser us (r_user r))))"
proof -
  from v have vid: "u_id v = viewer" by (simp add: findUser_Some)
  have own_get: "get_request st us viewer rid = Inr (r, Some v)" if "viewer = r_user r"
    using that f v vid by (simp add: get_request_def)
  have own_filter: "list_filter viewer (populate_accepters us r) = Inr (populate_accepters us r)"
    if "viewer = r_user r"
    using that p by (simp add: list_filter_def populate_accepters_def)
  have phone: "r_phone (populate_accepters us r) = r_phone r"
    by (simp add: populate_accepters_def)
  have own_list: "\<forall>q items n. list_requests st us viewer q = Inr (items, n) \<longrightarrow>
           (\<forall>item \<in> set items. \<exists>r0 \<in> set st. r_user r0 = viewer \<and> item = populate_accepters us r0)"
    using list_requests_items by blast
  have other_filter: "list_filter viewer (populate_accepters us r) =
          Inr ((populate_accepters us r)\<lparr>r_phone := ''Hidden''\<rparr>)" if "viewer \<noteq> r_user r"
    using that p by (simp add: list_filter_def populate_accepters_def)
  have other_list: "\<forall>q items n. list_requests st us viewer q = Inr (items, n) \<longrightarrow>
           (\<forall>item \<in> set items. r_user item \<noteq> r_user r)" if "viewer \<noteq> r_user r"
  proof (intro allI impI ballI)
    fix q items n item
    assume "list_requests st us viewer q = Inr (items, n)" "item \<in> set items"
    then obtain r0 where "r_user r0 = viewer" "item = populate_accepters us r0"
      using list_requests_items by blast
    with that show "r_user item \<noteq> r_user r" by (simp add: populate_accepters_def)
  qed
  have other_citizen: "get_request st us viewer rid = Inl Forbidden"
    if "viewer \<noteq> r_user r" "u_role v = ''citizen''" "findUser us (r_user r) \<noteq> None"
  proof -
    from that obtain owner where o: "findUser us (r_user r) = Some owner" by auto
    then have "u_id owner = r_user r" by (simp add: findUser_Some)
    with that o f v show ?thesis by (simp add: get_request_def)
  qed
  have other_role: "get_request st us viewer rid = Inr (r, findUser us (r_user r))"
    if "u_role v \<noteq> ''citizen''"
    using that f v by (simp add: get_request_def)
  from own_get own_filter phone own_list other_filter other_list other_citizen other_role
  show ?thesis by blast
qed

text \<open>Witness: the request \<open>r1\<close> of \<open>u1\<close> seen by its owner, by the citizen \<open>u3\<close> and by
  the volunteer \<open>u2\<close>.\<close>

theorem list_get_visibility_witness:
  "get_request [request1] users0 ''u1'' ''r1'' = Inr (request1, Some user1) \<and>
   list_requests [request1] users0 ''u1'' query0 = Inr ([populate_accepters users0 request1], 1) \<and>
   r_phone (populate_accepters users0 request1) = ''9000000001'' \<and>
   list_filter ''u3'' (populate_accepters users0 request1) =
     Inr ((populate_accepters users0 request1)\<lparr>r_phone := ''Hidden''\<rparr>) \<and>
   get_request [request1] users0 ''u3'' ''r1'' = Inl Forbidden \<and>
   get_request [request1] users0 ''u2'' ''r1'' = Inr (request1, Some user1)"
proof -
  have f: "findById [request1] ''r1'' = Some request1"
    by (simp add: findById_def request1_def)
  have p: "r_type request1 = Blood" "r_status request1 = ''pending''" "r_accepters request1 = []"
    and o: "r_user request1 = ''u1''" and ph: "r_phone request1 = ''9000000001''"
    by (simp_all add: request1_def)
  have u: "findUser users0 ''u1'' = Some user1" "findUser users0 ''u2'' = Some user2"
    "findUser users0 ''u3'' = Some user3"
    by (simp_all add: example_defs)
  have role: "u_role user3 = ''citizen''" "u_role user2 \<noteq> ''citizen''"
    by (simp_all add: user2_def user3_def)
  have l: "list_requests [request1] users0 ''u1'' query0 = Inr ([populate_accepters users0 request1], 1)"
    by (simp add: list_requests_def query0_def matches_def truthy_str_def sort_by_def
        list_filter_def populate_accepters_def request1_def)
  note t1 = list_get_visibility [OF f p u(1), THEN conjunct1, rule_format]
  note t2 = list_get_visibility [OF f p u(2), THEN conjunct2, rule_format]
  note t3 = list_get_visibility [OF f p u(3), THEN conjunct2, rule_format]
  have a: "get_request [request1] users0 ''u1'' ''r1'' = Inr (request1, Some user1)"
    using t1 o by simp
  have b: "r_phone (populate_accepters users0 request1) = ''9000000001''"
    using t1 o ph by simp
  have c: "list_filter ''u3'' (populate_accepters users0 request1) =
     Inr ((populate_accepters users0 request1)\<lparr>r_phone := ''Hidden''\<rparr>)"
    using t3 o by simp
  have d: "get_request [request1] users0 ''u3'' ''r1'' = Inl Forbidden"
    using t3 o role u by simp
  have e: "get_request [request1] users0 ''u2'' ''r1'' = Inr (request1, Some user1)"
    using t2 o role u by simp
  from a l b c d e show ?thesis by blast
qed

text \<open>
  C7 as stated fails: \<open>u2\<close> is not the owner of the pending blood request \<open>r1\<close>, which has
  no accepters; \<^verbatim>\<open>GET /:id\<close> returns it to \<open>u2\<close> with the stored phone and the owner's
  name and phone, and \<^verbatim>\<open>GET /\<close> returns no item at all to \<open>u2\<close>.
\<close>

theorem list_get_visibility_counterexample:
  "r_type request1 = Blood \<and> r_status request1 = ''pending'' \<and> r_accepters request1 = [] \<and>
   r_user request1 \<noteq> ''u2'' \<and>
   get_request [request1] users0 ''u2'' ''r1'' = Inr (request1, Some user1) \<and>
   r_phone request1 = ''9000000001'' \<and> u_phone user1 = Some ''9000000001'' \<and>
   u_name user1 = ''Asha'' \<and>
   list_requests [request1] users0 ''u2'' query0 = Inr ([], 0)"
  by (simp add: get_request_def list_requests_def query0_def matches_def sort_by_def example_defs)

text \<open>
  C8 (as amended). \<^verbatim>\<open>PUT /:id\<close>, called by the owner on a pending request, succeeds
  whatever the body holds. It modifies only the fields on the allow-list of the request's
  type and the generic fields \<^verbatim>\<open>name\<close>, \<^verbatim>\<open>location\<close> and \<^verbatim>\<open>contactInfo\<close>: each of these
  takes the value the body gives it, or keeps its value when the body does not mention it.
  Every other field that a handler writes (id, type, owner, phone, status, accepters,
  creation time and every other payload field) and every other request is unchanged, so
  the keys of the body outside the allow-list are ignored without a failure.
\<close>

theorem update_frame:
  assumes f: "findById st rid = Some request"
    and o: "r_user request = viewer" and p: "r_status request = ''pending''"
  shows "\<exists>st' request' owner.
      update_request st us viewer rid body = Inr (st', request', owner) \<and>
      findById st' rid = Some request' \<and>
      (\<forall>rid'. rid' \<noteq> rid \<longrightarrow> findById st' rid' = findById st rid') \<and>
      r_id request' = r_id request \<and> r_type request' = r_type request \<and>
      r_user request' = r_user request \<and> r_phone request' = r_phone request \<and>
      r_status request' = r_status request \<and> r_accepters request' = r_accepters request \<and>
      r_createdAt request' = r_createdAt request \<and>
      (\<forall>k. k \<notin> {''name'', ''location'', ''contactInfo''} \<union> set (typeSpecificUpdates (r_type request)) \<longrightarrow>
         map_of (r_fields request') k = map_of (r_fields request) k) \<and>
      (\<forall>k \<in> {''name'', ''location'', ''contactInfo''} \<union> set (typeSpecificUpdates (r_type request)).
         map_of (r_fields request') k =
           (case map_of body k of Some v \<Rightarrow> Some v | None \<Rightarrow> map_of (r_fields request) k))"
proof -
  let ?r = "object_assign request (updates_of (r_type request) body)"
  let ?st = "save_set st (r_id request) (updates_of (r_type request) body)"
  have run: "update_request st us viewer rid body = Inr (?st, ?r, findUser us (r_user ?r))"
    using f o p by (simp add: update_request_def Let_def)
  from f have id: "r_id request = rid" by (simp add: findById_Some)
  have 1: "findById ?st rid = Some ?r"
    using f id by (simp add: save_set_def findById_updateOne object_assign_frame)
  have 2: "\<forall>rid'. rid' \<noteq> rid \<longrightarrow> findById ?st rid' = findById st rid'"
    using id by (simp add: save_set_def findById_updateOne object_assign_frame)
  have a: "set allowedUpdates = {''name'', ''location'', ''contactInfo''}"
    by (auto simp: allowedUpdates_def)
  have 3: "\<forall>k. k \<notin> {''name'', ''location'', ''contactInfo''} \<union> set (typeSpecificUpdates (r_type request)) \<longrightarrow>
         map_of (r_fields ?r) k = map_of (r_fields request) k"
    by (simp only: object_assign_fields a) simp
  have 4: "\<forall>k \<in> {''name'', ''location'', ''contactInfo''} \<union> set (typeSpecificUpdates (r_type request)).
         map_of (r_fields ?r) k =
           (case map_of body k of Some v \<Rightarrow> Some v | None \<Rightarrow> map_of (r_fields request) k)"
    by (simp only: object_assign_fields a) simp
  from run 1 2 3 4 object_assign_frame [of request "updates_of (r_type request) body"]
  show ?thesis by blast
qed

text \<open>Witness: the owner of \<open>r1\<close> sends \<open>contactInfo\<close>, \<open>status\<close>, \<open>bloodType\<close> and \<open>title\<close>;
  the blood type changes, the status and the title do not.\<close>

theorem update_frame_witness:
  "update_request [request1] users0 ''u1'' ''r1'' body_put =
     Inr ([request1_put], request1_put, Some user1) \<and>
   r_status request1_put = ''pending'' \<and> r_accepters request1_put = [] \<and>
   map_of (r_fields request1_put) ''status'' = None \<and>
   map_of (r_fields request1_put) ''title'' = None \<and>
   map_of (r_fields request1_put) ''bloodType'' = Some (JStr ''A+'') \<and>
   map_of (r_fields request1_put) ''name'' = Some (JStr ''Asha'')"
proof -
  have f: "findById [request1] ''r1'' = Some request1"
    by (simp add: findById_def request1_def)
  have o: "r_user request1 = ''u1''" and p: "r_status request1 = ''pending''"
    by (simp_all add: request1_def)
  have run: "update_request [request1] users0 ''u1'' ''r1'' body_put =
     Inr ([request1_put], request1_put, Some user1)"
    by (simp add: update_request_def Let_def object_assign_def updates_of_def collect_def
        allowedUpdates_def body_put_def request1_put_def example_defs)
  from update_frame [OF f o p, of users0 body_put] run
  have "r_status request1_put = r_status request1 \<and> r_accepters request1_put = r_accepters request1 \<and>
      (\<forall>k. k \<notin> {''name'', ''location'', ''contactInfo''} \<union> set (typeSpecificUpdates (r_type request1)) \<longrightarrow>
         map_of (r_fields request1_put) k = map_of (r_fields request1) k) \<and>
      (\<forall>k \<in> {''name'', ''location'', ''contactInfo''} \<union> set (typeSpecificUpdates (r_type request1)).
         map_of (r_fields request1_put) k =
           (case map_of body_put k of Some v \<Rightarrow> Some v | None \<Rightarrow> map_of (r_fields request1) k))"
    by auto
  with run show ?thesis
    by (simp add: request1_def body_put_def)
qed

text \<open>
  C8 as stated fails: \<open>contactInfo\<close> is neither \<open>name\<close> nor \<open>location\<close> nor on the
  allow-list of a blood request, and the update sets it on the request.
\<close>

theorem update_frame_counterexample:
  "update_request [request1] users0 ''u1'' ''r1'' body_put =
     Inr ([request1_put], request1_put, Some user1) \<and>
   ''contactInfo'' \<notin> {''name'', ''location''} \<union> set (typeSpecificUpdates (r_type request1)) \<and>
   map_of (r_fields request1) ''contactInfo'' = None \<and>
   map_of (r_fields request1_put) ''contactInfo'' = Some (JStr ''ward 4'')"
  by (simp add: update_request_def Let_def object_assign_def updates_of_def collect_def
      allowedUpdates_def body_put_def request1_put_def example_defs)

text \<open>
  C9. \<^verbatim>\<open>POST /\<close>, for a body that passed the validators, an owner who has a user
  document and a fresh \<^verbatim>\<open>_id\<close>: it fails \<open>PhoneRequired\<close> if and only if the body has no
  phone and the owner's profile has none; otherwise it stores the request with status
  \<open>pending\<close>, no accepters, and the phone of the body when it has one, else the phone of
  the profile.
\<close>

theorem create_phone_required:
  assumes v: "errors = []" and u: "findUser us owner = Some u" and n: "findById st new_id = None"
  shows "(create_request st us owner new_id now errors body = Inl PhoneRequired \<longleftrightarrow>
            \<not> truthy_str (b_phone body) \<and> \<not> truthy_str (u_phone u)) \<and>
         (truthy_str (b_phone body) \<or> truthy_str (u_phone u) \<longrightarrow>
            (\<exists>request. create_request st us owner new_id now errors body =
                 Inr (st @ [request], request, Some u) \<and>
               findById (st @ [request]) new_id = Some request \<and>
               r_status request = ''pending'' \<and> r_accepters request = [] \<and>
               r_user request = owner \<and> r_type request = b_type body \<and>
               Some (r_phone request) =
                 (if truthy_str (b_phone body) then b_phone body else u_phone u)))"
proof (cases "truthy_str (b_phone body)")
  case True
  then obtain p where p: "b_phone body = Some p" "p \<noteq> []"
    by (auto simp: truthy_str_def split: option.splits)
  with v u n show ?thesis
    by (simp add: create_request_def Let_def truthy_str_def default_status_def
        default_accepters_def findById_append)
next
  case False
  show ?thesis
  proof (cases "truthy_str (u_phone u)")
    case True
    then obtain p where p: "u_phone u = Some p" "p \<noteq> []"
      by (auto simp: truthy_str_def split: option.splits)
    with False v u n show ?thesis
      by (simp add: create_request_def Let_def truthy_str_def default_status_def
          default_accepters_def findById_append)
  next
    case nophone: False
    with False v u n show ?thesis
      by (auto simp: create_request_def Let_def truthy_str_def split: option.splits)
  qed
qed

text \<open>Witness: \<open>u3\<close> has no profile phone and is refused without a phone in the body,
  accepted with one; \<open>u1\<close> has a profile phone, which the request takes.\<close>

theorem create_phone_required_witness:
  "create_request [] users0 ''u3'' ''r3'' 9 [] body_blood = Inl PhoneRequired \<and>
   (\<exists>request. create_request [] users0 ''u1'' ''r3'' 9 [] body_blood =
        Inr ([request], request, Some user1) \<and>
      r_status request = ''pending'' \<and> r_phone request = ''9000000001'') \<and>
   (\<exists>request. create_request [] users0 ''u3'' ''r3'' 9 [] (body_blood\<lparr>b_phone := Some ''9111111111''\<rparr>) =
        Inr ([request], request, Some user3) \<and>
      r_status request = ''pending'' \<and> r_phone request = ''9111111111'')"
proof -
  have e: "([] :: string list) = []" by simp
  have n: "findById [] ''r3'' = None" by (simp add: findById_def)
  have u1: "findUser users0 ''u1'' = Some user1" and u3: "findUser users0 ''u3'' = Some user3"
    by (simp_all add: example_defs)
  have t: "\<not> truthy_str (b_phone body_blood)" "\<not> truthy_str (u_phone user3)"
    "truthy_str (u_phone user1)" "u_phone user1 = Some ''9000000001''"
    "truthy_str (b_phone (body_blood\<lparr>b_phone := Some ''9111111111''\<rparr>))"
    "b_phone (body_blood\<lparr>b_phone := Some ''9111111111''\<rparr>) = Some ''9111111111''"
    by (simp_all add: truthy_str_def body_blood_def user1_def user3_def)
  have a: "create_request [] users0 ''u3'' ''r3'' 9 [] body_blood = Inl PhoneRequired"
    using create_phone_required [OF e u3 n, of 9 body_blood, THEN conjunct1] t by simp
  have b: "\<exists>request. create_request [] users0 ''u1'' ''r3'' 9 [] body_blood =
        Inr ([request], request, Some user1) \<and>
      r_status request = ''pending'' \<and> r_phone request = ''9000000001''"
    using create_phone_required [OF e u1 n, of 9 body_blood, THEN conjunct2] t by auto
  have c: "\<exists>request. create_request [] users0 ''u3'' ''r3'' 9 [] (body_blood\<lparr>b_phone := Some ''9111111111''\<rparr>) =
        Inr ([request], request, Some user3) \<and>
      r_status request = ''pending'' \<and> r_phone request = ''9111111111''"
    using create_phone_required [OF e u3 n, of 9 "body_blood\<lparr>b_phone := Some ''9111111111''\<rparr>",
        THEN conjunct2] t
    by auto
  from a b c show ?thesis by blast
qed

end
